theory Spec2Isabelle
  imports Main
begin

section \<open>Python values, errors and interpreter state\<close>

text \<open>
  The repository is one Sphinx configuration module, \<^verbatim>\<open>docs/conf.py\<close>. Its statements are
  two imports, one call \<^verbatim>\<open>sys.path.insert(0, os.path.abspath("../python/src"))\<close> and a
  sequence of assignments of literals to top-level names. The values the literals denote:
  strings, booleans, integers, \<^verbatim>\<open>None\<close>, list displays, tuple displays and dict displays
  (an association list in the order of the display, as Python dicts keep insertion order).
  An imported name is bound to a module object.
\<close>

datatype pyval =
    PNone
  | PBool bool
  | PInt int
  | PStr string
  | PList "pyval list"
  | PTuple "pyval list"
  | PDict "(pyval \<times> pyval) list"
  | PModule string

text \<open>
  The module has no \<^verbatim>\<open>raise\<close> of its own. The one exception that can leave it is the
  \<^verbatim>\<open>FileNotFoundError\<close> of \<^verbatim>\<open>os.getcwd()\<close>, which \<^verbatim>\<open>os.path.abspath\<close> calls for a relative
  path and which fails when the current working directory no longer exists.
\<close>

datatype pyerror = FileNotFoundError

text \<open>
  The interpreter state the module reads and writes: the current working directory
  (\<open>None\<close> when \<^verbatim>\<open>os.getcwd()\<close> cannot resolve it), the list \<^verbatim>\<open>sys.path\<close>, and the
  namespace the module's top-level names are bound in. Any further interpreter state is the
  record's extension field.
\<close>

record interp =
  getcwd :: "string option"
  sys_path :: "string list"
  globals :: "(string \<times> pyval) list"

section \<open>The standard-library functions the module calls\<close>

text \<open>
  These are not code of the repository: they are the POSIX \<^verbatim>\<open>os.path\<close> functions of the
  Python standard library (\<^verbatim>\<open>posixpath.py\<close>) and the built-in \<^verbatim>\<open>list.insert\<close> and
  \<^verbatim>\<open>str.split\<close>, which line 10 of \<^verbatim>\<open>conf.py\<close> runs.
\<close>

definition isabs :: "string \<Rightarrow> bool" where
  "isabs p = (take 1 p = ''/'')"

definition endswith_sep :: "string \<Rightarrow> bool" where
  "endswith_sep p = (p \<noteq> [] \<and> last p = CHR ''/'')"

definition join :: "string \<Rightarrow> string \<Rightarrow> string" where
  "join a b =
     (if isabs b then b
      else if a = [] \<or> endswith_sep a then a @ b
      else a @ ''/'' @ b)"

fun split_sep :: "string \<Rightarrow> string list" where
  "split_sep [] = [[]]"
| "split_sep (c # cs) =
     (if c = CHR ''/'' then [] # split_sep cs
      else (case split_sep cs of [] \<Rightarrow> [[c]] | w # ws \<Rightarrow> (c # w) # ws))"

fun join_sep :: "string list \<Rightarrow> string" where
  "join_sep [] = []"
| "join_sep [w] = w"
| "join_sep (w # ws) = w @ ''/'' @ join_sep ws"

definition initial_slashes :: "string \<Rightarrow> nat" where
  "initial_slashes p =
     (if \<not> isabs p then 0
      else if take 2 p = ''//'' \<and> take 3 p \<noteq> ''///'' then 2
      else 1)"

definition norm_step :: "nat \<Rightarrow> string list \<Rightarrow> string \<Rightarrow> string list" where
  "norm_step slashes new_comps component =
     (if component = [] \<or> component = ''.'' then new_comps
      else if component \<noteq> ''..'' \<or> (slashes = 0 \<and> new_comps = [])
                \<or> (new_comps \<noteq> [] \<and> last new_comps = ''..'')
        then new_comps @ [component]
      else if new_comps \<noteq> [] then butlast new_comps
      else new_comps)"

definition normpath :: "string \<Rightarrow> string" where
  "normpath p =
     (if p = [] then ''.''
      else
        let slashes = initial_slashes p;
            comps = foldl (norm_step slashes) [] (split_sep p);
            q = replicate slashes CHR ''/'' @ join_sep comps
        in if q = [] then ''.'' else q)"

definition abspath :: "'a interp_scheme \<Rightarrow> string \<Rightarrow> pyerror + string" where
  "abspath s p =
     (if isabs p then Inr (normpath p)
      else (case getcwd s of
              None \<Rightarrow> Inl FileNotFoundError
            | Some cwd \<Rightarrow> Inr (normpath (join cwd p))))"

definition list_insert :: "int \<Rightarrow> 'a \<Rightarrow> 'a list \<Rightarrow> 'a list" where
  "list_insert i x xs =
     (let n = int (length xs);
          j = (if i < 0 then max 0 (i + n) else min i n)
      in take (nat j) xs @ x # drop (nat j) xs)"

text \<open>
  Binding a name in a namespace, as a Python dict does: an existing key keeps its position
  and takes the new value, a new key goes to the end.
\<close>

fun dict_set :: "'k \<Rightarrow> 'v \<Rightarrow> ('k \<times> 'v) list \<Rightarrow> ('k \<times> 'v) list" where
  "dict_set k v [] = [(k, v)]"
| "dict_set k v (kv # kvs) =
     (if fst kv = k then (k, v) # kvs else kv # dict_set k v kvs)"

section \<open>The statements of the module and their execution\<close>

text \<open>
  The three statement forms of \<^verbatim>\<open>conf.py\<close>: \<^verbatim>\<open>import m\<close>; the expression statement
  \<^verbatim>\<open>sys.path.insert(i, os.path.abspath(p))\<close>; and \<^verbatim>\<open>name = literal\<close>.

  An import is taken to complete and to bind the module object: \<^verbatim>\<open>os\<close> and \<^verbatim>\<open>sys\<close> are
  standard modules that a running interpreter has already loaded. An interpreter whose import
  machinery has been taken away, where \<^verbatim>\<open>import\<close> itself raises \<^verbatim>\<open>ImportError\<close>, is outside
  this model. What is proved about exceptions is therefore stated relative to lines 6 to 10:
  what happens when they raise, and what happens once they have completed.
\<close>

datatype stmt =
    Import string
  | SysPathInsert int string
  | Assign string pyval

fun exec_stmt :: "stmt \<Rightarrow> 'a interp_scheme \<Rightarrow> pyerror + 'a interp_scheme" where
  "exec_stmt (Import m) s = Inr (s\<lparr>globals := dict_set m (PModule m) (globals s)\<rparr>)"
| "exec_stmt (SysPathInsert i p) s =
     (case abspath s p of
        Inl e \<Rightarrow> Inl e
      | Inr q \<Rightarrow> Inr (s\<lparr>sys_path := list_insert i q (sys_path s)\<rparr>))"
| "exec_stmt (Assign k v) s = Inr (s\<lparr>globals := dict_set k v (globals s)\<rparr>)"

text \<open>A module body runs its statements in order and stops at the first exception.\<close>

fun exec_block :: "stmt list \<Rightarrow> 'a interp_scheme \<Rightarrow> pyerror + 'a interp_scheme" where
  "exec_block [] s = Inr s"
| "exec_block (c # cs) s =
     (case exec_stmt c s of Inl e \<Rightarrow> Inl e | Inr s' \<Rightarrow> exec_block cs s')"

text \<open>The statements that assign a literal to a name: they call nothing and cannot raise.\<close>

fun is_assign :: "stmt \<Rightarrow> bool" where
  "is_assign (Assign k v) = True"
| "is_assign c = False"

text \<open>The module, statement by statement (lines 6 to 127 of \<^verbatim>\<open>docs/conf.py\<close>).\<close>

definition conf_module :: "stmt list" where
  "conf_module =
    [ Import ''os'',
      Import ''sys'',
      SysPathInsert 0 ''../python/src'',
      Assign ''project'' (PStr ''agentic-control''),
      Assign ''copyright'' (PStr ''2025, Jon Bogaty''),
      Assign ''author'' (PStr ''Jon Bogaty''),
      Assign ''release'' (PStr ''1.1.0''),
      Assign ''extensions'' (PList
        [ PStr ''sphinx.ext.autodoc'',
          PStr ''sphinx.ext.autosummary'',
          PStr ''sphinx.ext.napoleon'',
          PStr ''sphinx.ext.viewcode'',
          PStr ''sphinx.ext.intersphinx'',
          PStr ''sphinx_autodoc_typehints'',
          PStr ''sphinx_js'',
          PStr ''myst_parser'',
          PStr ''sphinxcontrib.mermaid'' ]),
      Assign ''templates_path'' (PList [PStr ''_templates'']),
      Assign ''exclude_patterns'' (PList [PStr ''_build'', PStr ''Thumbs.db'', PStr ''.DS_Store'']),
      Assign ''source_suffix'' (PDict
        [ (PStr ''.rst'', PStr ''restructuredtext''),
          (PStr ''.md'', PStr ''markdown'') ]),
      Assign ''html_theme'' (PStr ''sphinx_rtd_theme''),
      Assign ''html_static_path'' (PList [PStr ''_static'']),
      Assign ''html_title'' (PStr ''agentic-control Documentation''),
      Assign ''html_short_title'' (PStr ''agentic-control''),
      Assign ''html_theme_options'' (PDict
        [ (PStr ''navigation_depth'', PInt 4),
          (PStr ''collapse_navigation'', PBool False),
          (PStr ''sticky_navigation'', PBool True),
          (PStr ''includehidden'', PBool True),
          (PStr ''titles_only'', PBool False) ]),
      Assign ''autodoc_default_options'' (PDict
        [ (PStr ''members'', PBool True),
          (PStr ''member-order'', PStr ''bysource''),
          (PStr ''special-members'', PStr ''__init__''),
          (PStr ''undoc-members'', PBool True),
          (PStr ''exclude-members'', PStr ''__weakref__''),
          (PStr ''show-inheritance'', PBool True) ]),
      Assign ''autodoc_typehints'' (PStr ''description''),
      Assign ''autodoc_class_signature'' (PStr ''separated''),
      Assign ''autosummary_generate'' (PBool True),
      Assign ''napoleon_google_docstring'' (PBool True),
      Assign ''napoleon_numpy_docstring'' (PBool True),
      Assign ''napoleon_include_init_with_doc'' (PBool True),
      Assign ''napoleon_include_private_with_doc'' (PBool False),
      Assign ''napoleon_include_special_with_doc'' (PBool True),
      Assign ''napoleon_use_admonition_for_examples'' (PBool True),
      Assign ''napoleon_use_admonition_for_notes'' (PBool True),
      Assign ''napoleon_use_admonition_for_references'' (PBool True),
      Assign ''napoleon_use_ivar'' (PBool False),
      Assign ''napoleon_use_param'' (PBool True),
      Assign ''napoleon_use_rtype'' (PBool True),
      Assign ''napoleon_preprocess_types'' (PBool True),
      Assign ''napoleon_attr_annotations'' (PBool True),
      Assign ''js_language'' (PStr ''typescript''),
      Assign ''js_source_path'' (PList [PStr ''../src'']),
      Assign ''jsdoc_config_path'' (PStr ''../typedoc.json''),
      Assign ''root_for_relative_js_paths'' (PStr ''../src''),
      Assign ''intersphinx_mapping'' (PDict
        [ (PStr ''python'', PTuple [PStr ''https://docs.python.org/3'', PNone]) ]),
      Assign ''myst_enable_extensions'' (PList
        [ PStr ''colon_fence'',
          PStr ''deflist'',
          PStr ''fieldlist'',
          PStr ''html_admonition'',
          PStr ''html_image'',
          PStr ''replacements'',
          PStr ''smartquotes'',
          PStr ''strikethrough'',
          PStr ''substitution'',
          PStr ''tasklist'' ]),
      Assign ''myst_heading_anchors'' (PInt 3),
      Assign ''html_css_files'' (PList [PStr ''custom.css'']) ]"

definition load_conf :: "'a interp_scheme \<Rightarrow> pyerror + 'a interp_scheme" where
  "load_conf s = exec_block conf_module s"

text \<open>Reading a top-level name of a namespace.\<close>

definition lookup :: "'a interp_scheme \<Rightarrow> string \<Rightarrow> pyval option" where
  "lookup s k = map_of (globals s) k"

section \<open>What the module binds\<close>

text \<open>
  The name and value a statement binds at top level: an import binds the module object, an
  assignment binds its literal, the call statement binds nothing. \<open>bind_all\<close> stores a
  sequence of bindings in a namespace one after the other, as \<open>exec_block\<close> does;
  \<open>declared_value\<close> is what the module's last binding of a name gives it.
\<close>

fun binding_of :: "stmt \<Rightarrow> (string \<times> pyval) list" where
  "binding_of (Import m) = [(m, PModule m)]"
| "binding_of (SysPathInsert i p) = []"
| "binding_of (Assign k v) = [(k, v)]"

definition bindings :: "stmt list \<Rightarrow> (string \<times> pyval) list" where
  "bindings ss = concat (map binding_of ss)"

definition bind_all ::
  "(string \<times> pyval) list \<Rightarrow> (string \<times> pyval) list \<Rightarrow> (string \<times> pyval) list" where
  "bind_all g bs = foldl (\<lambda>g kv. dict_set (fst kv) (snd kv) g) g bs"

definition declared_value :: "string \<Rightarrow> pyval option" where
  "declared_value k = map_of (rev (bindings conf_module)) k"

text \<open>The configuration keys a module declares: the targets of its assignments, in order.\<close>

fun declared_key :: "stmt \<Rightarrow> string list" where
  "declared_key (Assign k v) = [k]"
| "declared_key (Import m) = []"
| "declared_key (SysPathInsert i p) = []"

definition declared_keys :: "stmt list \<Rightarrow> string list" where
  "declared_keys ss = concat (map declared_key ss)"

section \<open>Shapes of values\<close>

fun is_module :: "pyval \<Rightarrow> bool" where
  "is_module (PModule m) = True"
| "is_module v = False"

fun is_str :: "pyval \<Rightarrow> bool" where
  "is_str (PStr x) = True"
| "is_str v = False"

fun is_bool :: "pyval \<Rightarrow> bool" where
  "is_bool (PBool b) = True"
| "is_bool v = False"

fun is_scalar :: "pyval \<Rightarrow> bool" where
  "is_scalar PNone = True"
| "is_scalar (PBool b) = True"
| "is_scalar (PInt n) = True"
| "is_scalar (PStr x) = True"
| "is_scalar v = False"

fun is_str_list :: "pyval \<Rightarrow> bool" where
  "is_str_list (PList vs) = list_all is_str vs"
| "is_str_list v = False"

text \<open>A flat mapping: a dict whose keys and values are scalars (no nested container).\<close>

fun is_flat_dict :: "pyval \<Rightarrow> bool" where
  "is_flat_dict (PDict kvs) = list_all (\<lambda>kv. is_scalar (fst kv) \<and> is_scalar (snd kv)) kvs"
| "is_flat_dict v = False"

text \<open>A two-element tuple whose first element is the documentation URL, a string.\<close>

fun is_url_inventory_pair :: "pyval \<Rightarrow> bool" where
  "is_url_inventory_pair (PTuple [PStr url, inventory]) = True"
| "is_url_inventory_pair v = False"

definition setting_is :: "(pyval \<Rightarrow> bool) \<Rightarrow> 'a interp_scheme \<Rightarrow> string \<Rightarrow> bool" where
  "setting_is P s k = (case lookup s k of None \<Rightarrow> False | Some v \<Rightarrow> P v)"

text \<open>The configuration keys of a namespace: its names, in order, that are not bound to a module.\<close>

definition config_keys :: "'a interp_scheme \<Rightarrow> string list" where
  "config_keys s = map fst (filter (\<lambda>kv. \<not> is_module (snd kv)) (globals s))"

section \<open>The option groups\<close>

text \<open>
  The three groups of options of \<^verbatim>\<open>conf.py\<close> and the top-level settings that carry each:
  the theme options (\<^verbatim>\<open>html_theme_options\<close>, lines 57 to 63), the autodoc defaults
  (\<^verbatim>\<open>autodoc_default_options\<close>, lines 68 to 75) and the napoleon settings (the names
  \<^verbatim>\<open>napoleon_...\<close>, lines 83 to 95). A group is a single dictionary-valued setting when
  exactly one setting carries it and that setting's value is a flat dict.
\<close>

datatype option_group = ThemeOptions | AutodocDefaults | NapoleonToggles

fun group_member :: "option_group \<Rightarrow> string \<Rightarrow> bool" where
  "group_member ThemeOptions k = (k = ''html_theme_options'')"
| "group_member AutodocDefaults k = (k = ''autodoc_default_options'')"
| "group_member NapoleonToggles k = (take 9 k = ''napoleon_'')"

definition group_settings :: "option_group \<Rightarrow> 'a interp_scheme \<Rightarrow> (string \<times> pyval) list" where
  "group_settings g s = filter (\<lambda>kv. group_member g (fst kv)) (globals s)"

definition single_dict_setting :: "option_group \<Rightarrow> 'a interp_scheme \<Rightarrow> bool" where
  "single_dict_setting g s =
     (case group_settings g s of [kv] \<Rightarrow> is_flat_dict (snd kv) | _ \<Rightarrow> False)"

section \<open>The specification's table of recognised keys\<close>

text \<open>
  This definition follows the words of the specification, not the code: the keys of the
  table in its section 6, row by row. The row \<^verbatim>\<open>napoleon_*\<close> stands for every key with that
  prefix.
\<close>

definition spec_table_keys :: "string list" where
  "spec_table_keys =
    [ ''project'', ''author'', ''release'', ''copyright'',
      ''extensions'',
      ''templates_path'', ''exclude_patterns'',
      ''source_suffix'',
      ''html_theme'', ''html_theme_options'', ''html_static_path'', ''html_title'',
      ''autodoc_default_options'', ''autodoc_typehints'', ''autodoc_class_signature'',
      ''autosummary_generate'',
      ''js_language'', ''js_source_path'', ''jsdoc_config_path'', ''root_for_relative_js_paths'',
      ''intersphinx_mapping'',
      ''myst_enable_extensions'', ''myst_heading_anchors'',
      ''html_css_files'' ]"

definition spec_recognises :: "string \<Rightarrow> bool" where
  "spec_recognises k = (k \<in> set spec_table_keys \<or> take 9 k = ''napoleon_'')"

section \<open>Facts about loading\<close>

lemma map_of_dict_set: "map_of (dict_set k v kvs) = (map_of kvs)(k \<mapsto> v)"
  by (induction kvs) (auto simp: fun_eq_iff)

lemma map_of_bind_all: "map_of (bind_all g bs) = map_of g ++ map_of (rev bs)"
proof (induction bs arbitrary: g)
  case Nil
  then show ?case by (simp add: bind_all_def)
next
  case (Cons b bs)
  have step: "bind_all g (b # bs) = bind_all (dict_set (fst b) (snd b) g) bs"
    by (simp add: bind_all_def)
  have "map_of (bind_all g (b # bs)) = map_of (dict_set (fst b) (snd b) g) ++ map_of (rev bs)"
    unfolding step by (rule Cons.IH)
  also have "\<dots> = (map_of g)(fst b \<mapsto> snd b) ++ map_of (rev bs)"
    by (simp only: map_of_dict_set)
  also have "\<dots> = map_of g ++ map_of (rev (b # bs))"
    by (cases b) (auto simp: fun_eq_iff map_add_def split: option.splits)
  finally show ?case .
qed

lemma load_conf_result:
  "getcwd s = Some d \<Longrightarrow>
   load_conf s = Inr (s\<lparr>sys_path := normpath (join d ''../python/src'') # sys_path s,
                         globals := bind_all (globals s) (bindings conf_module)\<rparr>)"
  by (simp add: load_conf_def conf_module_def bindings_def bind_all_def abspath_def isabs_def
      list_insert_def)

lemma load_conf_fails:
  "getcwd s = None \<Longrightarrow> load_conf s = Inl FileNotFoundError"
  by (simp add: load_conf_def conf_module_def abspath_def isabs_def)

lemma lookup_loaded:
  "lookup (s\<lparr>sys_path := p, globals := bind_all (globals s) (bindings conf_module)\<rparr>) k =
     (case declared_value k of None \<Rightarrow> lookup s k | Some v \<Rightarrow> Some v)"
  by (simp add: lookup_def map_of_bind_all map_add_def declared_value_def split: option.splits)



lemma dict_set_new: "k \<notin> fst ` set g \<Longrightarrow> dict_set k v g = g @ [(k, v)]"
  by (induction g) auto

lemma bind_all_distinct: "distinct (map fst (g @ bs)) \<Longrightarrow> bind_all g bs = g @ bs"
proof (induction bs arbitrary: g)
  case Nil
  then show ?case by (simp add: bind_all_def)
next
  case (Cons b bs)
  from Cons.prems have new: "fst b \<notin> fst ` set g" by auto
  have "bind_all g (b # bs) = bind_all (dict_set (fst b) (snd b) g) bs"
    by (simp add: bind_all_def)
  also have "\<dots> = bind_all (g @ [b]) bs"
    by (simp add: dict_set_new [OF new])
  also have "\<dots> = (g @ [b]) @ bs"
    using Cons.prems by (intro Cons.IH) simp
  finally show ?case by simp
qed

lemma conf_names_distinct: "distinct (map fst (bindings conf_module))"
  by code_simp

lemma fresh_table: "bind_all [] (bindings conf_module) = bindings conf_module"
  using bind_all_distinct [of "[]" "bindings conf_module"] conf_names_distinct by simp

lemma load_conf_fresh:
  "getcwd s = Some d \<Longrightarrow> globals s = [] \<Longrightarrow>
   load_conf s = Inr (s\<lparr>sys_path := normpath (join d ''../python/src'') # sys_path s,
                         globals := bindings conf_module\<rparr>)"
  using load_conf_result [of s d] by (simp add: fresh_table)

lemma dv_source_suffix:
  "declared_value ''source_suffix'' =
     Some (PDict [(PStr ''.rst'', PStr ''restructuredtext''), (PStr ''.md'', PStr ''markdown'')])"
  by code_simp

lemma dv_intersphinx_mapping:
  "declared_value ''intersphinx_mapping'' =
     Some (PDict [(PStr ''python'', PTuple [PStr ''https://docs.python.org/3'', PNone])])"
  by code_simp

lemma dv_scalars:
  "declared_value ''project'' = Some (PStr ''agentic-control'')"
  "declared_value ''html_theme'' = Some (PStr ''sphinx_rtd_theme'')"
  "declared_value ''release'' = Some (PStr ''1.1.0'')"
  by code_simp+

lemma dv_sequences:
  "declared_value ''extensions'' = Some (PList
        [ PStr ''sphinx.ext.autodoc'', PStr ''sphinx.ext.autosummary'', PStr ''sphinx.ext.napoleon'',
          PStr ''sphinx.ext.viewcode'', PStr ''sphinx.ext.intersphinx'',
          PStr ''sphinx_autodoc_typehints'', PStr ''sphinx_js'', PStr ''myst_parser'',
          PStr ''sphinxcontrib.mermaid'' ])"
  "declared_value ''templates_path'' = Some (PList [PStr ''_templates''])"
  "declared_value ''exclude_patterns'' = Some (PList [PStr ''_build'', PStr ''Thumbs.db'', PStr ''.DS_Store''])"
  "declared_value ''html_static_path'' = Some (PList [PStr ''_static''])"
  by code_simp+

lemma dv_limits:
  "declared_value ''html_theme_options'' = Some (PDict
        [ (PStr ''navigation_depth'', PInt 4),
          (PStr ''collapse_navigation'', PBool False),
          (PStr ''sticky_navigation'', PBool True),
          (PStr ''includehidden'', PBool True),
          (PStr ''titles_only'', PBool False) ])"
  "declared_value ''myst_heading_anchors'' = Some (PInt 3)"
  by code_simp+

lemma fresh_config_keys:
  "map fst (filter (\<lambda>kv. \<not> is_module (snd kv)) (bindings conf_module)) = declared_keys conf_module"
  by code_simp

lemma unrecognised_keys:
  "filter (\<lambda>k. \<not> spec_recognises k) (declared_keys conf_module) = [''html_short_title'']"
  by code_simp

lemma theme_group:
  "filter (\<lambda>kv. group_member ThemeOptions (fst kv)) (bindings conf_module) =
     [(''html_theme_options'', PDict
        [ (PStr ''navigation_depth'', PInt 4),
          (PStr ''collapse_navigation'', PBool False),
          (PStr ''sticky_navigation'', PBool True),
          (PStr ''includehidden'', PBool True),
          (PStr ''titles_only'', PBool False) ])]"
  by code_simp

lemma autodoc_group:
  "filter (\<lambda>kv. group_member AutodocDefaults (fst kv)) (bindings conf_module) =
     [(''autodoc_default_options'', PDict
        [ (PStr ''members'', PBool True),
          (PStr ''member-order'', PStr ''bysource''),
          (PStr ''special-members'', PStr ''__init__''),
          (PStr ''undoc-members'', PBool True),
          (PStr ''exclude-members'', PStr ''__weakref__''),
          (PStr ''show-inheritance'', PBool True) ])]"
  by code_simp

lemma napoleon_group:
  "filter (\<lambda>kv. group_member NapoleonToggles (fst kv)) (bindings conf_module) =
     [ (''napoleon_google_docstring'', PBool True),
       (''napoleon_numpy_docstring'', PBool True),
       (''napoleon_include_init_with_doc'', PBool True),
       (''napoleon_include_private_with_doc'', PBool False),
       (''napoleon_include_special_with_doc'', PBool True),
       (''napoleon_use_admonition_for_examples'', PBool True),
       (''napoleon_use_admonition_for_notes'', PBool True),
       (''napoleon_use_admonition_for_references'', PBool True),
       (''napoleon_use_ivar'', PBool False),
       (''napoleon_use_param'', PBool True),
       (''napoleon_use_rtype'', PBool True),
       (''napoleon_preprocess_types'', PBool True),
       (''napoleon_attr_annotations'', PBool True) ]"
  by code_simp



lemma exec_block_append:
  "exec_block (xs @ ys) s =
     (case exec_block xs s of Inl e \<Rightarrow> Inl e | Inr s' \<Rightarrow> exec_block ys s')"
  by (induction xs arbitrary: s) (auto split: sum.splits)

lemma assignments_complete:
  "list_all is_assign cs \<Longrightarrow> \<exists>st. exec_block cs s = Inr st"
proof (induction cs arbitrary: s)
  case Nil
  then show ?case by simp
next
  case (Cons c cs)
  then obtain k v where c: "c = Assign k v"
    by (cases c) auto
  from Cons.prems have "list_all is_assign cs" by simp
  then show ?case
    using Cons.IH by (simp add: c)
qed

lemma conf_preamble:
  "take 3 conf_module = [Import ''os'', Import ''sys'', SysPathInsert 0 ''../python/src'']"
  by (simp add: conf_module_def)

lemma conf_settings_assign: "list_all is_assign (drop 3 conf_module)"
  by code_simp

lemma load_conf_split:
  "load_conf s =
     (case exec_block (take 3 conf_module) s of
        Inl e \<Rightarrow> Inl e
      | Inr s' \<Rightarrow> exec_block (drop 3 conf_module) s')"
proof -
  have "exec_block conf_module s = exec_block (take 3 conf_module @ drop 3 conf_module) s"
    by simp
  then show ?thesis
    unfolding load_conf_def by (simp only: exec_block_append)
qed

section \<open>The claims\<close>




text \<open>
  C2, as stated: every configuration key the file declares is a key of the table in
  section 6 of the specification. It fails on \<^verbatim>\<open>html_short_title\<close> (line 54): loaded into an
  empty namespace, the module leaves a configuration key the table does not list.
\<close>

theorem C2_table_incomplete:
  "map_sum id (\<lambda>st. list_all spec_recognises (config_keys st))
     (load_conf \<lparr>getcwd = Some ''/repo/docs'', sys_path = [], globals = []\<rparr>) = Inr False
   \<and> declared_value ''html_short_title'' = Some (PStr ''agentic-control'')
   \<and> spec_recognises ''html_short_title'' = False"
proof -
  have a: "list_all spec_recognises (declared_keys conf_module) = False"
    by code_simp
  have b: "declared_value ''html_short_title'' = Some (PStr ''agentic-control'')"
    by code_simp
  have c: "spec_recognises ''html_short_title'' = False"
    by code_simp
  show ?thesis
    by (simp add: load_conf_fresh config_keys_def fresh_config_keys a b c)
qed

text \<open>
  C2, amended: every configuration key the file declares, except \<^verbatim>\<open>html_short_title\<close>, is a
  key of the table in section 6 of the specification (the row \<^verbatim>\<open>napoleon_*\<close> covering the
  thirteen napoleon settings). Loaded into an empty namespace, the module leaves exactly
  the keys it assigns, and \<^verbatim>\<open>html_short_title\<close> is the only one the table does not list.
\<close>

theorem C2_table_complete_but_one:
  assumes "getcwd s = Some d" and "globals s = []"
  shows "\<exists>st. load_conf s = Inr st
           \<and> config_keys st = declared_keys conf_module
           \<and> filter (\<lambda>k. \<not> spec_recognises k) (config_keys st) = [''html_short_title'']"
  by (simp add: load_conf_fresh [OF assms] config_keys_def fresh_config_keys unrecognised_keys)

theorem C2_table_complete_but_one_witness:
  "getcwd \<lparr>getcwd = Some ''/home/ci/work/docs'', sys_path = [], globals = []\<rparr> = Some ''/home/ci/work/docs''
   \<and> globals \<lparr>getcwd = Some ''/home/ci/work/docs'', sys_path = [], globals = []\<rparr> = []
   \<and> (\<exists>st. load_conf \<lparr>getcwd = Some ''/home/ci/work/docs'', sys_path = [], globals = []\<rparr> = Inr st
           \<and> filter (\<lambda>k. \<not> spec_recognises k) (config_keys st) = [''html_short_title''])"
  using C2_table_complete_but_one
    [of "\<lparr>getcwd = Some ''/home/ci/work/docs'', sys_path = [], globals = []\<rparr>" "''/home/ci/work/docs''"]
  by auto

text \<open>
  C3, as stated: each of the three option groups is a single dictionary-valued setting. It
  fails for the napoleon toggles: the module has no dictionary of napoleon options, it
  assigns thirteen separate top-level names.
\<close>

theorem C3_napoleon_not_a_dict:
  "map_sum id (single_dict_setting NapoleonToggles)
     (load_conf \<lparr>getcwd = Some ''/repo/docs'', sys_path = [], globals = []\<rparr>) = Inr False"
  by (simp add: load_conf_fresh single_dict_setting_def group_settings_def napoleon_group
      del: group_member.simps)

text \<open>
  C3, amended: the theme options and the autodoc defaults are each one dictionary-valued
  setting (\<^verbatim>\<open>html_theme_options\<close>, \<^verbatim>\<open>autodoc_default_options\<close>) that maps keys to scalar
  values; the napoleon toggles are not a dictionary but thirteen separate top-level settings
  named \<^verbatim>\<open>napoleon_...\<close>, each a boolean.
\<close>

theorem C3_option_groups:
  assumes "getcwd s = Some d" and "globals s = []"
  shows "\<exists>st. load_conf s = Inr st
           \<and> single_dict_setting ThemeOptions st
           \<and> single_dict_setting AutodocDefaults st
           \<and> length (group_settings NapoleonToggles st) = 13
           \<and> list_all (\<lambda>kv. is_bool (snd kv)) (group_settings NapoleonToggles st)"
  by (simp add: load_conf_fresh [OF assms] single_dict_setting_def group_settings_def
      theme_group autodoc_group napoleon_group del: group_member.simps)

theorem C3_option_groups_witness:
  "getcwd \<lparr>getcwd = Some ''/srv/build/docs'', sys_path = [''/usr/lib/python3.12''], globals = []\<rparr>
     = Some ''/srv/build/docs''
   \<and> globals \<lparr>getcwd = Some ''/srv/build/docs'', sys_path = [''/usr/lib/python3.12''], globals = []\<rparr> = []
   \<and> (\<exists>st. load_conf \<lparr>getcwd = Some ''/srv/build/docs'', sys_path = [''/usr/lib/python3.12''],
                        globals = []\<rparr> = Inr st
           \<and> single_dict_setting ThemeOptions st
           \<and> single_dict_setting AutodocDefaults st
           \<and> length (group_settings NapoleonToggles st) = 13)"
  using C3_option_groups
    [of "\<lparr>getcwd = Some ''/srv/build/docs'', sys_path = [''/usr/lib/python3.12''], globals = []\<rparr>"
        "''/srv/build/docs''"]
  by auto

text \<open>
  C4: \<^verbatim>\<open>source_suffix\<close> is a mapping from file-name suffixes to parser names with exactly two
  entries, \<^verbatim>\<open>".rst"\<close> to \<^verbatim>\<open>"restructuredtext"\<close> and \<^verbatim>\<open>".md"\<close> to \<^verbatim>\<open>"markdown"\<close>: whenever the
  working directory can be resolved the load completes and binds that dict.
\<close>

theorem C4_source_suffix:
  assumes "getcwd s = Some d"
  shows "\<exists>st. load_conf s = Inr st
           \<and> lookup st ''source_suffix'' =
               Some (PDict [(PStr ''.rst'', PStr ''restructuredtext''),
                            (PStr ''.md'', PStr ''markdown'')])"
  by (simp add: load_conf_result [OF assms] lookup_loaded dv_source_suffix)

theorem C4_source_suffix_witness:
  "getcwd \<lparr>getcwd = Some ''/repo/docs'', sys_path = [''/usr/lib/python3''], globals = []\<rparr>
     = Some ''/repo/docs''
   \<and> (\<exists>st. load_conf \<lparr>getcwd = Some ''/repo/docs'', sys_path = [''/usr/lib/python3''],
                        globals = []\<rparr> = Inr st
           \<and> lookup st ''source_suffix'' =
               Some (PDict [(PStr ''.rst'', PStr ''restructuredtext''),
                            (PStr ''.md'', PStr ''markdown'')]))"
  using C4_source_suffix
    [of "\<lparr>getcwd = Some ''/repo/docs'', sys_path = [''/usr/lib/python3''], globals = []\<rparr>"
        "''/repo/docs''"]
  by simp

text \<open>
  C5: \<^verbatim>\<open>intersphinx_mapping\<close> is a dict from external-project names to pairs: its one entry
  maps \<^verbatim>\<open>"python"\<close> to the two-element tuple of the documentation URL and the inventory
  \<^verbatim>\<open>None\<close>, and every key of the dict is a string whose value is such a pair.
\<close>

theorem C5_intersphinx_mapping:
  assumes "getcwd s = Some d"
  shows "\<exists>st kvs. load_conf s = Inr st
           \<and> lookup st ''intersphinx_mapping'' = Some (PDict kvs)
           \<and> kvs = [(PStr ''python'', PTuple [PStr ''https://docs.python.org/3'', PNone])]
           \<and> list_all (\<lambda>kv. is_str (fst kv) \<and> is_url_inventory_pair (snd kv)) kvs"
  by (simp add: load_conf_result [OF assms] lookup_loaded dv_intersphinx_mapping)

theorem C5_intersphinx_mapping_witness:
  "getcwd \<lparr>getcwd = Some ''/work/docs'', sys_path = [], globals = [(''__file__'', PStr ''conf.py'')]\<rparr>
     = Some ''/work/docs''
   \<and> (\<exists>st kvs. load_conf \<lparr>getcwd = Some ''/work/docs'', sys_path = [],
                            globals = [(''__file__'', PStr ''conf.py'')]\<rparr> = Inr st
           \<and> lookup st ''intersphinx_mapping'' = Some (PDict kvs)
           \<and> list_all (\<lambda>kv. is_str (fst kv) \<and> is_url_inventory_pair (snd kv)) kvs)"
  using C5_intersphinx_mapping
    [of "\<lparr>getcwd = Some ''/work/docs'', sys_path = [], globals = [(''__file__'', PStr ''conf.py'')]\<rparr>"
        "''/work/docs''"]
  by auto

text \<open>
  C6: the project name, the theme name and the release version are bound to strings, and
  the project name is \<^verbatim>\<open>"agentic-control"\<close>.
\<close>

theorem C6_scalar_strings:
  assumes "getcwd s = Some d"
  shows "\<exists>st. load_conf s = Inr st
           \<and> setting_is is_str st ''project''
           \<and> setting_is is_str st ''html_theme''
           \<and> setting_is is_str st ''release''
           \<and> lookup st ''project'' = Some (PStr ''agentic-control'')
           \<and> lookup st ''html_theme'' = Some (PStr ''sphinx_rtd_theme'')
           \<and> lookup st ''release'' = Some (PStr ''1.1.0'')"
  by (simp add: load_conf_result [OF assms] setting_is_def lookup_loaded dv_scalars)

theorem C6_scalar_strings_witness:
  "getcwd \<lparr>getcwd = Some ''/'', sys_path = [''''], globals = []\<rparr> = Some ''/''
   \<and> (\<exists>st. load_conf \<lparr>getcwd = Some ''/'', sys_path = [''''], globals = []\<rparr> = Inr st
           \<and> setting_is is_str st ''project''
           \<and> setting_is is_str st ''html_theme''
           \<and> setting_is is_str st ''release''
           \<and> lookup st ''project'' = Some (PStr ''agentic-control''))"
  using C6_scalar_strings [of "\<lparr>getcwd = Some ''/'', sys_path = [''''], globals = []\<rparr>" "''/''"]
  by auto

text \<open>
  C7: the extension list, the templates path, the exclusion patterns and the static-file
  paths are each bound to a list all of whose elements are strings; the extension list holds
  the nine extension names in the order of the file.
\<close>

theorem C7_string_sequences:
  assumes "getcwd s = Some d"
  shows "\<exists>st. load_conf s = Inr st
           \<and> list_all (setting_is is_str_list st)
               [''extensions'', ''templates_path'', ''exclude_patterns'', ''html_static_path'']
           \<and> lookup st ''extensions'' = Some (PList
               [ PStr ''sphinx.ext.autodoc'', PStr ''sphinx.ext.autosummary'',
                 PStr ''sphinx.ext.napoleon'', PStr ''sphinx.ext.viewcode'',
                 PStr ''sphinx.ext.intersphinx'', PStr ''sphinx_autodoc_typehints'',
                 PStr ''sphinx_js'', PStr ''myst_parser'', PStr ''sphinxcontrib.mermaid'' ])"
  by (simp add: load_conf_result [OF assms] setting_is_def lookup_loaded dv_sequences)

theorem C7_string_sequences_witness:
  "getcwd \<lparr>getcwd = Some ''/repo/docs'', sys_path = [],
            globals = [(''extensions'', PNone)]\<rparr> = Some ''/repo/docs''
   \<and> (\<exists>st. load_conf \<lparr>getcwd = Some ''/repo/docs'', sys_path = [],
                        globals = [(''extensions'', PNone)]\<rparr> = Inr st
           \<and> list_all (setting_is is_str_list st)
               [''extensions'', ''templates_path'', ''exclude_patterns'', ''html_static_path''])"
  using C7_string_sequences
    [of "\<lparr>getcwd = Some ''/repo/docs'', sys_path = [], globals = [(''extensions'', PNone)]\<rparr>"
        "''/repo/docs''"]
  by auto

text \<open>
  C8, as stated: evaluating the module never raises, in every environment. It fails where
  the current working directory cannot be resolved: \<^verbatim>\<open>os.path.abspath("../python/src")\<close> on
  line 10 calls \<^verbatim>\<open>os.getcwd()\<close> for its relative argument, and the \<^verbatim>\<open>FileNotFoundError\<close> leaves
  the module, which has no handler.
\<close>

theorem C8_load_raises:
  "load_conf \<lparr>getcwd = None, sys_path = [''/usr/lib/python3''], globals = []\<rparr>
     = Inl FileNotFoundError"
  by (simp add: load_conf_fails)

text \<open>
  C8, amended: the configuration file has no error handling of its own, so evaluating it
  can raise: an exception raised in lines 6 to 10 (the two imports and the call) leaves the
  module, and where the current working directory cannot be resolved the evaluation does
  raise. Every later statement is an assignment of a literal and cannot raise: once lines 6
  to 10 have completed, the load completes.
\<close>

theorem C8_exceptions_propagate:
  "take 3 conf_module = [Import ''os'', Import ''sys'', SysPathInsert 0 ''../python/src'']
   \<and> list_all is_assign (drop 3 conf_module)
   \<and> (getcwd s = None \<longrightarrow> (\<exists>e. load_conf s = Inl e))
   \<and> (\<forall>e. exec_block (take 3 conf_module) s = Inl e \<longrightarrow> load_conf s = Inl e)
   \<and> (\<forall>s'. exec_block (take 3 conf_module) s = Inr s' \<longrightarrow> (\<exists>st. load_conf s = Inr st))"
proof (intro conjI allI impI)
  show "take 3 conf_module = [Import ''os'', Import ''sys'', SysPathInsert 0 ''../python/src'']"
    by (rule conf_preamble)
  show "list_all is_assign (drop 3 conf_module)"
    by (rule conf_settings_assign)
next
  assume "getcwd s = None"
  then show "\<exists>e. load_conf s = Inl e"
    by (simp add: load_conf_fails)
next
  fix e
  assume "exec_block (take 3 conf_module) s = Inl e"
  then show "load_conf s = Inl e"
    by (simp add: load_conf_split)
next
  fix s'
  assume "exec_block (take 3 conf_module) s = Inr s'"
  moreover obtain st where "exec_block (drop 3 conf_module) s' = Inr st"
    using assignments_complete [OF conf_settings_assign] by blast
  ultimately show "\<exists>st. load_conf s = Inr st"
    by (simp add: load_conf_split)
qed

theorem C8_exceptions_propagate_witness:
  "(\<exists>e. load_conf \<lparr>getcwd = None, sys_path = [''/usr/lib/python3''], globals = []\<rparr> = Inl e)
   \<and> (\<exists>st. load_conf \<lparr>getcwd = Some ''/tmp/checkout/docs'', sys_path = [], globals = []\<rparr> = Inr st)"
proof -
  let ?a = "\<lparr>getcwd = None, sys_path = [''/usr/lib/python3''], globals = []\<rparr>"
  let ?b = "\<lparr>getcwd = Some ''/tmp/checkout/docs'', sys_path = [], globals = []\<rparr>"
  have pre: "\<exists>s'. exec_block (take 3 conf_module) ?b = Inr s'"
    by (simp add: conf_preamble abspath_def isabs_def)
  from C8_exceptions_propagate [of ?a] have "\<exists>e. load_conf ?a = Inl e"
    by simp
  moreover from C8_exceptions_propagate [of ?b] pre have "\<exists>st. load_conf ?b = Inr st"
    by blast
  ultimately show ?thesis by simp
qed





text \<open>
  C10: the theme option \<^verbatim>\<open>navigation_depth\<close> is the integer 4, and
  \<^verbatim>\<open>myst_heading_anchors\<close> is the integer 3, a heading depth and not a boolean.
\<close>

theorem C10_numeric_limits:
  assumes "getcwd s = Some d"
  shows "\<exists>st opts. load_conf s = Inr st
           \<and> lookup st ''html_theme_options'' = Some (PDict opts)
           \<and> map_of opts (PStr ''navigation_depth'') = Some (PInt 4)
           \<and> lookup st ''myst_heading_anchors'' = Some (PInt 3)
           \<and> \<not> setting_is is_bool st ''myst_heading_anchors''"
  by (simp add: load_conf_result [OF assms] setting_is_def lookup_loaded dv_limits)

theorem C10_numeric_limits_witness:
  "getcwd \<lparr>getcwd = Some ''/repo/docs'', sys_path = [''/opt/venv/lib''], globals = []\<rparr>
     = Some ''/repo/docs''
   \<and> (\<exists>st opts. load_conf \<lparr>getcwd = Some ''/repo/docs'', sys_path = [''/opt/venv/lib''],
                             globals = []\<rparr> = Inr st
           \<and> lookup st ''html_theme_options'' = Some (PDict opts)
           \<and> map_of opts (PStr ''navigation_depth'') = Some (PInt 4)
           \<and> lookup st ''myst_heading_anchors'' = Some (PInt 3))"
  using C10_numeric_limits
    [of "\<lparr>getcwd = Some ''/repo/docs'', sys_path = [''/opt/venv/lib''], globals = []\<rparr>"
        "''/repo/docs''"]
  by auto

end
